theory Spec2Isabelle
  imports Complex_Main "HOL-Library.Word"
begin

section \<open>Arrays and errors\<close>

text \<open>
  The notebook works on the framework's dense arrays. An array is modelled by its shape
  and its indexing function; only positions inside the shape are ever read by the
  definitions below. One-dimensional arrays hold the lookup table and the normalisation
  constants, two-dimensional arrays hold label maps, three-dimensional arrays hold
  images (height, width, channel) and features after transposition (channel, height,
  width). Shapes and crop sizes are natural numbers.

  An exception is a value of type \<open>error\<close>, returned on the left of a sum:
  \<open>IndexError\<close> and \<open>ValueError\<close> are Python's, \<open>MXNetError\<close> is the
  framework's.
\<close>

datatype error = IndexError | ValueError | MXNetError

record 'a nd1 =
  len1 :: nat
  at1 :: "nat \<Rightarrow> 'a"

record 'a nd2 =
  rows2 :: nat
  cols2 :: nat
  at2 :: "nat \<Rightarrow> nat \<Rightarrow> 'a"

record 'a nd3 =
  shape0 :: nat
  shape1 :: nat
  shape2 :: nat
  at3 :: "nat \<Rightarrow> nat \<Rightarrow> nat \<Rightarrow> 'a"

text \<open>\<^verbatim>\<open>nd.zeros(n)\<close> and \<^verbatim>\<open>nd.array([...])\<close>.\<close>

definition nd_zeros :: "nat \<Rightarrow> nat nd1" where
  "nd_zeros n = \<lparr>len1 = n, at1 = (\<lambda>_. 0)\<rparr>"

definition nd_array :: "'a list \<Rightarrow> 'a nd1" where
  "nd_array xs = \<lparr>len1 = length xs, at1 = (\<lambda>i. xs ! i)\<rparr>"

text \<open>Assignment \<^verbatim>\<open>t[k] = v\<close> at a scalar index; an index past the end is rejected.\<close>

definition nd_setitem :: "'a nd1 \<Rightarrow> nat \<Rightarrow> 'a \<Rightarrow> error + 'a nd1" where
  "nd_setitem t k v =
     (if k < len1 t then Inr (t\<lparr>at1 := (at1 t)(k := v)\<rparr>) else Inl IndexError)"

section \<open>The palette and the lookup table\<close>

text \<open>
  \<^verbatim>\<open>VOC_COLORMAP\<close> is a list of 21 three-element lists of Python integers; each inner
  list is written here as a triple. \<^verbatim>\<open>VOC_CLASSES\<close> is the index-aligned list of names.
\<close>

definition VOC_COLORMAP :: "(nat \<times> nat \<times> nat) list" where
  "VOC_COLORMAP =
     [(0, 0, 0), (128, 0, 0), (0, 128, 0), (128, 128, 0),
      (0, 0, 128), (128, 0, 128), (0, 128, 128), (128, 128, 128),
      (64, 0, 0), (192, 0, 0), (64, 128, 0), (192, 128, 0),
      (64, 0, 128), (192, 0, 128), (64, 128, 128), (192, 128, 128),
      (0, 64, 0), (128, 64, 0), (0, 192, 0), (128, 192, 0),
      (0, 64, 128)]"


text \<open>The packed key \<^verbatim>\<open>(colormap[0] * 256 + colormap[1]) * 256 + colormap[2]\<close>.\<close>

definition rgb_key :: "nat \<times> nat \<times> nat \<Rightarrow> nat" where
  "rgb_key c = (case c of (r, g, b) \<Rightarrow> (r * 256 + g) * 256 + b)"

text \<open>
  The loop \<^verbatim>\<open>for i, colormap in enumerate(VOC_COLORMAP): colormap2label[key] = i\<close>,
  run on the list of (index, colour) pairs. The table is created with the framework's
  default element type float32, which stores the integers 0..20 exactly; its entries
  are modelled as natural numbers.
\<close>

fun colormap2label_loop :: "(nat \<times> (nat \<times> nat \<times> nat)) list \<Rightarrow> nat nd1 \<Rightarrow> error + nat nd1" where
  "colormap2label_loop [] t = Inr t"
| "colormap2label_loop ((i, colormap) # rest) t =
     (case nd_setitem t (rgb_key colormap) i of
        Inl e \<Rightarrow> Inl e
      | Inr t' \<Rightarrow> colormap2label_loop rest t')"

definition colormap2label :: "error + nat nd1" where
  "colormap2label = colormap2label_loop (enumerate 0 VOC_COLORMAP) (nd_zeros (256 ^ 3))"

section \<open>The label decoder\<close>

text \<open>
  Indexing the table with an array of int32 indices,
  \<^verbatim>\<open>colormap2label[idx]\<close>: the result has the shape of the index array and holds the
  table entry at each index. An index outside the table is rejected.
\<close>

definition nd_take :: "'a nd1 \<Rightarrow> 32 word nd2 \<Rightarrow> error + 'a nd2" where
  "nd_take t idx =
     (if list_ex (\<lambda>i. list_ex (\<lambda>j. sint (at2 idx i j) < 0 \<or> int (len1 t) \<le> sint (at2 idx i j))
            [0..<cols2 idx]) [0..<rows2 idx]
      then Inl IndexError
      else Inr \<lparr>rows2 = rows2 idx, cols2 = cols2 idx,
                at2 = (\<lambda>i j. at1 t (nat (sint (at2 idx i j))))\<rparr>)"

text \<open>\<^verbatim>\<open>colormap.astype('int32')\<close> on an array of unsigned bytes.\<close>

definition astype_int32 :: "8 word nd3 \<Rightarrow> 32 word nd3" where
  "astype_int32 a =
     \<lparr>shape0 = shape0 a, shape1 = shape1 a, shape2 = shape2 a,
      at3 = (\<lambda>i j c. ucast (at3 a i j c))\<rparr>"

text \<open>
  \<^verbatim>\<open>voc_label_indices(colormap, colormap2label)\<close>: the three channel planes
  \<^verbatim>\<open>colormap[:, :, 0]\<close>, \<^verbatim>\<open>[:, :, 1]\<close>, \<^verbatim>\<open>[:, :, 2]\<close> are combined in int32
  arithmetic, which wraps modulo \<open>2 ^ 32\<close>, and the result indexes the table. An
  image with fewer than three channels has no plane 2.
\<close>

definition voc_label_indices :: "8 word nd3 \<Rightarrow> 'a nd1 \<Rightarrow> error + 'a nd2" where
  "voc_label_indices colormap c2l =
     (let colormap' = astype_int32 colormap in
      if shape2 colormap' < 3 then Inl IndexError
      else
        let idx = \<lparr>rows2 = shape0 colormap', cols2 = shape1 colormap',
                   at2 = (\<lambda>i j. (at3 colormap' i j 0 * 256 + at3 colormap' i j 1) * 256
                                  + at3 colormap' i j 2)\<rparr>
        in nd_take c2l idx)"

text \<open>The colour of the pixel in row \<open>i\<close> and column \<open>j\<close>, as Python integers.\<close>

definition rgb_at :: "8 word nd3 \<Rightarrow> nat \<Rightarrow> nat \<Rightarrow> nat \<times> nat \<times> nat" where
  "rgb_at colormap i j =
     (unat (at3 colormap i j 0), unat (at3 colormap i j 1), unat (at3 colormap i j 2))"

section \<open>The paired random cropper\<close>

text \<open>
  Python's \<^verbatim>\<open>random.randint(a, b)\<close> returns an integer between \<open>a\<close> and \<open>b\<close>
  inclusive and raises on an empty range. The generator's state is not modelled: each
  call receives the natural number \<open>r\<close> the generator produces, and every value of
  the range is reached by some \<open>r\<close>.
\<close>

definition randint :: "int \<Rightarrow> int \<Rightarrow> nat \<Rightarrow> error + int" where
  "randint a b r = (if b < a then Inl ValueError else Inr (a + int r mod (b - a + 1)))"

text \<open>
  The framework's \<^verbatim>\<open>nd.slice(src, begin, end)\<close> on a three-dimensional array, with
  \<open>lo\<close> and \<open>hi\<close> for the two corners. A range
  that is empty or reaches past the array is rejected.
\<close>

definition nd_slice :: "'a nd3 \<Rightarrow> nat \<times> nat \<times> nat \<Rightarrow> nat \<times> nat \<times> nat \<Rightarrow> error + 'a nd3" where
  "nd_slice src lo hi =
     (case (lo, hi) of ((b0, b1, b2), (e0, e1, e2)) \<Rightarrow>
        if b0 < e0 \<and> e0 \<le> shape0 src \<and> b1 < e1 \<and> e1 \<le> shape1 src \<and>
           b2 < e2 \<and> e2 \<le> shape2 src
        then Inr \<lparr>shape0 = e0 - b0, shape1 = e1 - b1, shape2 = e2 - b2,
                  at3 = (\<lambda>i j c. at3 src (b0 + i) (b1 + j) (b2 + c))\<rparr>
        else Inl MXNetError)"

text \<open>
  The framework's \<^verbatim>\<open>image.scale_down(src_size, size)\<close>, which shrinks a crop size
  (width, height) that exceeds the image size while keeping its aspect ratio. The
  framework divides in floating point and truncates; the quotients are exact
  rationals here.
\<close>

definition scale_down :: "nat \<times> nat \<Rightarrow> nat \<times> nat \<Rightarrow> nat \<times> nat" where
  "scale_down src_size sz =
     (case (sz, src_size) of ((w, h), (sw, sh)) \<Rightarrow>
        let (w1, h1) = (if sh < h then (rat_of_nat (w * sh) / rat_of_nat h, rat_of_nat sh)
                        else (rat_of_nat w, rat_of_nat h));
            (w2, h2) = (if rat_of_nat sw < w1 then (rat_of_nat sw, h1 * rat_of_nat sw / w1)
                        else (w1, h1))
        in (nat \<lfloor>w2\<rfloor>, nat \<lfloor>h2\<rfloor>))"

text \<open>
  The framework's \<^verbatim>\<open>image.fixed_crop(src, x0, y0, w, h, size)\<close>: the slice of rows
  \<open>y0 ..< y0 + h\<close> and columns \<open>x0 ..< x0 + w\<close> with every channel, resized when
  \<^verbatim>\<open>size\<close> is given and differs from \<open>(w, h)\<close>. The optional argument \<open>resize\<close>
  carries the size \<open>sz\<close> together with the framework's resizing routine, which is
  not modelled.
\<close>

type_synonym 'a imresize = "'a nd3 \<Rightarrow> nat \<Rightarrow> nat \<Rightarrow> error + 'a nd3"

definition fixed_crop ::
  "'a nd3 \<Rightarrow> nat \<Rightarrow> nat \<Rightarrow> nat \<Rightarrow> nat \<Rightarrow> ((nat \<times> nat) \<times> 'a imresize) option \<Rightarrow> error + 'a nd3" where
  "fixed_crop src x0 y0 w h resize =
     (case nd_slice src (y0, x0, 0) (y0 + h, x0 + w, shape2 src) of
        Inl e \<Rightarrow> Inl e
      | Inr out \<Rightarrow>
          (case resize of
             None \<Rightarrow> Inr out
           | Some (sz, imresize) \<Rightarrow>
               if (w, h) \<noteq> sz then imresize out (fst sz) (snd sz) else Inr out))"

text \<open>
  The framework's \<^verbatim>\<open>image.random_crop(src, size)\<close>: one draw for the left edge, one
  for the top edge, then \<^verbatim>\<open>fixed_crop\<close>; it returns the crop and the rectangle
  \<open>(x0, y0, w, h)\<close>. The pair \<open>rnd\<close> holds the generator's two outputs in call order.
\<close>

definition random_crop ::
  "'a imresize \<Rightarrow> 'a nd3 \<Rightarrow> nat \<times> nat \<Rightarrow> nat \<times> nat \<Rightarrow> error + ('a nd3 \<times> (nat \<times> nat \<times> nat \<times> nat))" where
  "random_crop imresize src sz rnd =
     (let h = shape0 src; w = shape1 src; (new_w, new_h) = scale_down (w, h) sz in
      case randint 0 (int w - int new_w) (fst rnd) of
        Inl e \<Rightarrow> Inl e
      | Inr x0 \<Rightarrow>
          (case randint 0 (int h - int new_h) (snd rnd) of
             Inl e \<Rightarrow> Inl e
           | Inr y0 \<Rightarrow>
               (case fixed_crop src (nat x0) (nat y0) new_w new_h (Some (sz, imresize)) of
                  Inl e \<Rightarrow> Inl e
                | Inr out \<Rightarrow> Inr (out, (nat x0, nat y0, new_w, new_h)))))"

text \<open>
  \<^verbatim>\<open>voc_rand_crop(feature, label, height, width)\<close>: the feature is cropped at a random
  rectangle and the label at that same rectangle, \<^verbatim>\<open>fixed_crop(label, *rect)\<close>.
\<close>

definition voc_rand_crop ::
  "'a imresize \<Rightarrow> 'a nd3 \<Rightarrow> 'b nd3 \<Rightarrow> nat \<Rightarrow> nat \<Rightarrow> nat \<times> nat \<Rightarrow> error + ('a nd3 \<times> 'b nd3)" where
  "voc_rand_crop imresize feature label height width rnd =
     (case random_crop imresize feature (width, height) rnd of
        Inl e \<Rightarrow> Inl e
      | Inr (feature', rect) \<Rightarrow>
          (case rect of (x0, y0, w, h) \<Rightarrow>
             (case fixed_crop label x0 y0 w h None of
                Inl e \<Rightarrow> Inl e
              | Inr label' \<Rightarrow> Inr (feature', label'))))"

section \<open>Normalisation\<close>

text \<open>
  The float32 arithmetic of the framework is a parameter: the conversion of a byte, the
  rounding of a decimal constant, subtraction and division. Every property below holds
  for each choice of these four operations.
\<close>

record 'f float32 =
  of_uint8 :: "8 word \<Rightarrow> 'f"
  of_const :: "rat \<Rightarrow> 'f"
  fsub :: "'f \<Rightarrow> 'f \<Rightarrow> 'f"
  fdiv :: "'f \<Rightarrow> 'f \<Rightarrow> 'f"

text \<open>The exact arithmetic of the rationals, one instance of the parameter.\<close>

definition exact_float32 :: "rat float32" where
  "exact_float32 =
     \<lparr>of_uint8 = (\<lambda>v. rat_of_nat (unat v)), of_const = (\<lambda>q. q),
      fsub = (\<lambda>x y. x - y), fdiv = (\<lambda>x y. x / y)\<rparr>"

text \<open>
  An elementwise operation between an image and a vector along the channel axis, with
  the framework's broadcasting: equal lengths pair up, and a length of one is
  repeated; other lengths are rejected.
\<close>

definition broadcast_channels ::
  "('f \<Rightarrow> 'f \<Rightarrow> 'f) \<Rightarrow> 'f nd3 \<Rightarrow> 'f nd1 \<Rightarrow> error + 'f nd3" where
  "broadcast_channels f a v =
     (if shape2 a = len1 v then
        Inr \<lparr>shape0 = shape0 a, shape1 = shape1 a, shape2 = shape2 a,
             at3 = (\<lambda>i j c. f (at3 a i j c) (at1 v c))\<rparr>
      else if shape2 a = 1 then
        Inr \<lparr>shape0 = shape0 a, shape1 = shape1 a, shape2 = len1 v,
             at3 = (\<lambda>i j c. f (at3 a i j 0) (at1 v c))\<rparr>
      else if len1 v = 1 then
        Inr \<lparr>shape0 = shape0 a, shape1 = shape1 a, shape2 = shape2 a,
             at3 = (\<lambda>i j c. f (at3 a i j c) (at1 v 0))\<rparr>
      else Inl MXNetError)"

definition astype_float32 :: "'f float32 \<Rightarrow> 8 word nd3 \<Rightarrow> 'f nd3" where
  "astype_float32 ops a =
     \<lparr>shape0 = shape0 a, shape1 = shape1 a, shape2 = shape2 a,
      at3 = (\<lambda>i j c. of_uint8 ops (at3 a i j c))\<rparr>"

definition div_scalar :: "'f float32 \<Rightarrow> 'f nd3 \<Rightarrow> rat \<Rightarrow> 'f nd3" where
  "div_scalar ops a k =
     \<lparr>shape0 = shape0 a, shape1 = shape1 a, shape2 = shape2 a,
      at3 = (\<lambda>i j c. fdiv ops (at3 a i j c) (of_const ops k))\<rparr>"

text \<open>
  \<^verbatim>\<open>normalize_image\<close>:
  \<^verbatim>\<open>(img.astype('float32') / 255 - self.rgb_mean) / self.rgb_std\<close>, with the two
  vectors of the dataset object passed in.
\<close>

definition normalize_image ::
  "'f float32 \<Rightarrow> 'f nd1 \<Rightarrow> 'f nd1 \<Rightarrow> 8 word nd3 \<Rightarrow> error + 'f nd3" where
  "normalize_image ops rgb_mean rgb_std img =
     (case broadcast_channels (fsub ops) (div_scalar ops (astype_float32 ops img) 255) rgb_mean of
        Inl e \<Rightarrow> Inl e
      | Inr centred \<Rightarrow> broadcast_channels (fdiv ops) centred rgb_std)"

section \<open>The dataset\<close>

record 'f VOCSegDataset =
  rgb_mean :: "'f nd1"
  rgb_std :: "'f nd1"
  crop_size :: "nat \<times> nat"
  features :: "'f nd3 list"
  labels :: "8 word nd3 list"
  self_colormap2label :: "nat nd1"

text \<open>
  \<^verbatim>\<open>filter\<close>: the images whose height and width reach the crop size
  \<open>(height, width)\<close>.
\<close>

definition filter_imgs :: "nat \<times> nat \<Rightarrow> 'a nd3 list \<Rightarrow> 'a nd3 list" where
  "filter_imgs crop imgs =
     filter (\<lambda>img. shape0 img \<ge> fst crop \<and> shape1 img \<ge> snd crop) imgs"

text \<open>A list comprehension whose body may raise: the first error ends it.\<close>

fun map_raising :: "('a \<Rightarrow> error + 'b) \<Rightarrow> 'a list \<Rightarrow> error + 'b list" where
  "map_raising f [] = Inr []"
| "map_raising f (x # xs) =
     (case f x of
        Inl e \<Rightarrow> Inl e
      | Inr y \<Rightarrow> (case map_raising f xs of Inl e \<Rightarrow> Inl e | Inr ys \<Rightarrow> Inr (y # ys)))"

text \<open>
  The constants \<^verbatim>\<open>nd.array([0.485, 0.456, 0.406])\<close> and
  \<^verbatim>\<open>nd.array([0.229, 0.224, 0.225])\<close> that \<^verbatim>\<open>__init__\<close> stores in the object.
\<close>

definition init_rgb_mean :: "'f float32 \<Rightarrow> 'f nd1" where
  "init_rgb_mean ops = nd_array (map (of_const ops) [485 / 1000, 456 / 1000, 406 / 1000])"

definition init_rgb_std :: "'f float32 \<Rightarrow> 'f nd1" where
  "init_rgb_std ops = nd_array (map (of_const ops) [229 / 1000, 224 / 1000, 225 / 1000])"

text \<open>
  \<^verbatim>\<open>__init__\<close>. The two lists are what \<^verbatim>\<open>read_voc_images\<close> returned for the
  directory and split; reading files is outside the model, and so is the line printed
  at the end.
\<close>

definition VOCSegDataset_init ::
  "'f float32 \<Rightarrow> nat \<times> nat \<Rightarrow> 8 word nd3 list \<Rightarrow> 8 word nd3 list \<Rightarrow> nat nd1
     \<Rightarrow> error + 'f VOCSegDataset" where
  "VOCSegDataset_init ops crop fs ls c2l =
     (let mean = init_rgb_mean ops; std = init_rgb_std ops
      in case map_raising (normalize_image ops mean std) (filter_imgs crop fs) of
           Inl e \<Rightarrow> Inl e
         | Inr fs' \<Rightarrow>
             Inr \<lparr>rgb_mean = mean, rgb_std = std, crop_size = crop, features = fs',
                  labels = filter_imgs crop ls, self_colormap2label = c2l\<rparr>)"

text \<open>\<^verbatim>\<open>__len__\<close>.\<close>

definition len :: "'f VOCSegDataset \<Rightarrow> nat" where
  "len ds = length (features ds)"

text \<open>
  Indexing a Python list with an integer: a negative index counts from the end, an
  index beyond either end raises IndexError.
\<close>

definition list_getitem :: "'a list \<Rightarrow> int \<Rightarrow> error + 'a" where
  "list_getitem xs idx =
     (if 0 \<le> idx \<and> idx < int (length xs) then Inr (xs ! nat idx)
      else if - int (length xs) \<le> idx \<and> idx < 0 then Inr (xs ! nat (int (length xs) + idx))
      else Inl IndexError)"

text \<open>\<^verbatim>\<open>feature.transpose((2, 0, 1))\<close>: channels first.\<close>

definition transpose_201 :: "'a nd3 \<Rightarrow> 'a nd3" where
  "transpose_201 a =
     \<lparr>shape0 = shape2 a, shape1 = shape0 a, shape2 = shape1 a,
      at3 = (\<lambda>c i j. at3 a i j c)\<rparr>"

text \<open>
  \<^verbatim>\<open>__getitem__\<close>: the arguments of \<^verbatim>\<open>voc_rand_crop\<close> are evaluated left to right,
  \<^verbatim>\<open>self.features[idx]\<close> first, and the crop size is unpacked as (height, width).
\<close>

definition getitem ::
  "'f imresize \<Rightarrow> 'f VOCSegDataset \<Rightarrow> int \<Rightarrow> nat \<times> nat \<Rightarrow> error + ('f nd3 \<times> nat nd2)" where
  "getitem imresize ds idx rnd =
     (case list_getitem (features ds) idx of
        Inl e \<Rightarrow> Inl e
      | Inr feature0 \<Rightarrow>
          (case list_getitem (labels ds) idx of
             Inl e \<Rightarrow> Inl e
           | Inr label0 \<Rightarrow>
               (case voc_rand_crop imresize feature0 label0
                       (fst (crop_size ds)) (snd (crop_size ds)) rnd of
                  Inl e \<Rightarrow> Inl e
                | Inr (feature, label) \<Rightarrow>
                    (case voc_label_indices label (self_colormap2label ds) of
                       Inl e \<Rightarrow> Inl e
                     | Inr indices \<Rightarrow> Inr (transpose_201 feature, indices)))))"

section \<open>Concrete inputs\<close>

text \<open>
  A label image of one row and two columns: the pixel on the left has the colour of
  class 1, the pixel on the right a colour outside the palette.
\<close>

definition example_label :: "8 word nd3" where
  "example_label =
     \<lparr>shape0 = 1, shape1 = 2, shape2 = 3,
      at3 = (\<lambda>i j c. if j = 0 then (if c = 0 then 128 else 0) else 1 + word_of_nat c)\<rparr>"

text \<open>
  A feature image of the same height and width as \<open>example_label\<close>, and a label image
  that is taller and wider than both.
\<close>

definition example_feature :: "8 word nd3" where
  "example_feature =
     \<lparr>shape0 = 1, shape1 = 2, shape2 = 3, at3 = (\<lambda>i j c. word_of_nat (100 * j + c))\<rparr>"

definition example_big_label :: "8 word nd3" where
  "example_big_label =
     \<lparr>shape0 = 3, shape1 = 3, shape2 = 3,
      at3 = (\<lambda>i j c. if i = j \<and> c = 0 then 128 else 0)\<rparr>"

text \<open>One resizing routine, by nearest neighbour, to stand for the framework's.\<close>

definition nearest_resize :: "'a imresize" where
  "nearest_resize out w h =
     Inr \<lparr>shape0 = h, shape1 = w, shape2 = shape2 out,
          at3 = (\<lambda>i j c. at3 out (i * shape0 out div h) (j * shape1 out div w) c)\<rparr>"

text \<open>A uniform grey image of one pixel, and a feature of three rows and columns.\<close>

definition example_gray :: "8 word nd3" where
  "example_gray = \<lparr>shape0 = 1, shape1 = 1, shape2 = 3, at3 = (\<lambda>i j c. 128)\<rparr>"

definition example_big_feature :: "8 word nd3" where
  "example_big_feature =
     \<lparr>shape0 = 3, shape1 = 3, shape2 = 3, at3 = (\<lambda>i j c. word_of_nat (10 * i + j))\<rparr>"

text \<open>
  The dataset built from one pair with the crop size (1, 1), the table of the notebook
  and exact arithmetic.
\<close>

definition example_dataset :: "rat VOCSegDataset" where
  "example_dataset =
     projr (VOCSegDataset_init exact_float32 (1, 1) [example_feature] [example_label]
              (projr colormap2label))"

section \<open>Properties of the lookup table\<close>

lemma colormap2label_loop_at:
  assumes "distinct (map (\<lambda>p. rgb_key (snd p)) ps)"
    and "\<forall>p \<in> set ps. rgb_key (snd p) < len1 t"
  shows "\<exists>t'. colormap2label_loop ps t = Inr t' \<and> len1 t' = len1 t \<and>
           (\<forall>k. at1 t' k =
              (case map_of (map (\<lambda>p. (rgb_key (snd p), fst p)) ps) k of
                 None \<Rightarrow> at1 t k
               | Some i \<Rightarrow> i))"
  using assms
proof (induction ps arbitrary: t)
  case Nil
  then show ?case by simp
next
  case (Cons p ps)
  obtain i c where p: "p = (i, c)" by (cases p)
  let ?t1 = "t\<lparr>at1 := (at1 t)(rgb_key c := i)\<rparr>"
  from Cons.prems p have step: "nd_setitem t (rgb_key c) i = Inr ?t1"
    by (simp add: nd_setitem_def)
  from Cons.prems have d: "distinct (map (\<lambda>p. rgb_key (snd p)) ps)"
    by simp
  from Cons.prems have b: "\<forall>q \<in> set ps. rgb_key (snd q) < len1 ?t1"
    by simp
  from Cons.IH [OF d b] obtain t' where
    run: "colormap2label_loop ps ?t1 = Inr t'" and
    len: "len1 t' = len1 ?t1" and
    at: "\<And>k. at1 t' k =
           (case map_of (map (\<lambda>p. (rgb_key (snd p), fst p)) ps) k of
              None \<Rightarrow> at1 ?t1 k
            | Some i \<Rightarrow> i)"
    by blast
  from Cons.prems p have fresh: "rgb_key c \<notin> rgb_key ` snd ` set ps"
    by (simp add: image_image)
  have none: "map_of (map (\<lambda>p. (rgb_key (snd p), fst p)) ps) (rgb_key c) = None"
    using fresh by (force simp: map_of_eq_None_iff image_image)
  have "\<And>k. at1 t' k =
          (case map_of (map (\<lambda>p. (rgb_key (snd p), fst p)) (p # ps)) k of
             None \<Rightarrow> at1 t k
           | Some i \<Rightarrow> i)"
    using at none p by (simp split: option.splits)
  with run len step p show ?case by simp
qed

lemma VOC_COLORMAP_distinct_keys:
  "distinct (map (\<lambda>p. rgb_key (snd p)) (enumerate 0 VOC_COLORMAP))"
  by (simp add: VOC_COLORMAP_def rgb_key_def enumerate_eq_zip upt_conv_Cons)

lemma VOC_COLORMAP_keys_in_range:
  "\<forall>p \<in> set (enumerate 0 VOC_COLORMAP). rgb_key (snd p) < len1 (nd_zeros (256 ^ 3))"
  by (simp add: VOC_COLORMAP_def rgb_key_def nd_zeros_def enumerate_eq_zip upt_conv_Cons)

lemma colormap2label_table:
  "\<exists>t. colormap2label = Inr t \<and> len1 t = 256 ^ 3 \<and>
       (\<forall>k. at1 t k =
          (case map_of (map (\<lambda>p. (rgb_key (snd p), fst p)) (enumerate 0 VOC_COLORMAP)) k of
             None \<Rightarrow> 0
           | Some i \<Rightarrow> i))"
proof -
  from colormap2label_loop_at [OF VOC_COLORMAP_distinct_keys VOC_COLORMAP_keys_in_range]
  obtain t where run: "colormap2label_loop (enumerate 0 VOC_COLORMAP) (nd_zeros (256 ^ 3)) = Inr t"
    and len: "len1 t = len1 (nd_zeros (256 ^ 3))"
    and at: "\<And>k. at1 t k =
          (case map_of (map (\<lambda>p. (rgb_key (snd p), fst p)) (enumerate 0 VOC_COLORMAP)) k of
             None \<Rightarrow> at1 (nd_zeros (256 ^ 3)) k
           | Some i \<Rightarrow> i)"
    by blast
  have z: "\<And>k. at1 (nd_zeros (256 ^ 3)) k = 0" "len1 (nd_zeros (256 ^ 3)) = 256 ^ 3"
    by (simp_all add: nd_zeros_def)
  show ?thesis
    unfolding colormap2label_def using run len at z by (simp cong: option.case_cong)
qed





lemma map_of_enumerate_key:
  assumes "distinct (map (\<lambda>p. rgb_key (snd p)) (enumerate 0 pal))" and "i < length pal"
  shows "map_of (map (\<lambda>p. (rgb_key (snd p), fst p)) (enumerate 0 pal)) (rgb_key (pal ! i)) = Some i"
proof (rule map_of_is_SomeI)
  show "distinct (map fst (map (\<lambda>p. (rgb_key (snd p), fst p)) (enumerate 0 pal)))"
    using assms(1) by (simp add: comp_def)
  have "(i, pal ! i) \<in> set (enumerate 0 pal)"
    using assms(2) by (simp add: in_set_enumerate_eq)
  then show "(rgb_key (pal ! i), i) \<in> set (map (\<lambda>p. (rgb_key (snd p), fst p)) (enumerate 0 pal))"
    by force
qed

lemma table_lookup:
  assumes "colormap2label = Inr t"
  shows "len1 t = 256 ^ 3"
    and "at1 t k =
       (case map_of (map (\<lambda>p. (rgb_key (snd p), fst p)) (enumerate 0 VOC_COLORMAP)) k of
          None \<Rightarrow> 0
        | Some i \<Rightarrow> i)"
proof -
  from colormap2label_table obtain t' where t': "colormap2label = Inr t'"
    and len: "len1 t' = 256 ^ 3"
    and at: "\<And>k. at1 t' k =
       (case map_of (map (\<lambda>p. (rgb_key (snd p), fst p)) (enumerate 0 VOC_COLORMAP)) k of
          None \<Rightarrow> 0
        | Some i \<Rightarrow> i)"
    by blast
  from t' assms have "t' = t" by (metis sum.inject(2))
  with len at show "len1 t = 256 ^ 3"
    and "at1 t k =
       (case map_of (map (\<lambda>p. (rgb_key (snd p), fst p)) (enumerate 0 VOC_COLORMAP)) k of
          None \<Rightarrow> 0
        | Some i \<Rightarrow> i)"
    by simp_all
qed

lemma table_palette:
  assumes "colormap2label = Inr t" and "i < length VOC_COLORMAP"
  shows "at1 t (rgb_key (VOC_COLORMAP ! i)) = i"
  by (simp add: table_lookup(2) [OF assms(1)]
        map_of_enumerate_key [OF VOC_COLORMAP_distinct_keys assms(2)])


lemma VOC_COLORMAP_length: "length VOC_COLORMAP = 21"
  by (simp add: VOC_COLORMAP_def)

text \<open>
  C2. The table is built without error, has \<open>256 ^ 3\<close> entries, and for every palette
  index \<open>i\<close> in 0..20 with triple \<open>(r, g, b)\<close> the entry at the packed key
  \<open>(r * 256 + g) * 256 + b\<close> is \<open>i\<close>.
\<close>

theorem colormap2label_palette_entries:
  "\<exists>t. colormap2label = Inr t \<and> len1 t = 256 ^ 3 \<and>
       (\<forall>i r g b. i < 21 \<and> VOC_COLORMAP ! i = (r, g, b)
          \<longrightarrow> at1 t ((r * 256 + g) * 256 + b) = i)"
proof -
  from colormap2label_table obtain t where t: "colormap2label = Inr t"
    by blast
  have "at1 t ((r * 256 + g) * 256 + b) = i"
    if "i < 21" and "VOC_COLORMAP ! i = (r, g, b)" for i r g b
  proof -
    from that(1) have "i < length VOC_COLORMAP"
      by (simp only: VOC_COLORMAP_length)
    from table_palette [OF t this] that(2) show ?thesis
      by (simp only: rgb_key_def prod.case)
  qed
  with t table_lookup(1) [OF t] show ?thesis by blast
qed

theorem colormap2label_palette_entries_witness:
  "\<exists>t. colormap2label = Inr t \<and> (1 :: nat) < 21 \<and> VOC_COLORMAP ! 1 = (128, 0, 0) \<and>
       at1 t ((128 * 256 + 0) * 256 + 0) = 1"
proof -
  have c: "VOC_COLORMAP ! 1 = (128, 0, 0)"
    by (simp add: VOC_COLORMAP_def)
  from colormap2label_palette_entries obtain t where t: "colormap2label = Inr t"
    and at: "\<And>i r g b. i < 21 \<and> VOC_COLORMAP ! i = (r, g, b)
               \<Longrightarrow> at1 t ((r * 256 + g) * 256 + b) = i"
    by blast
  from at [of 1 128 0 0] c have "at1 t ((128 * 256 + 0) * 256 + 0) = 1"
    by simp
  moreover have "(1 :: nat) < 21" by simp
  ultimately show ?thesis using t c by blast
qed

section \<open>Properties of the label decoder\<close>

lemma sint_of_nat_small:
  assumes "n < 2 ^ 31"
  shows "sint (word_of_nat n :: 32 word) = int n"
proof -
  from assms have "int n < 2 ^ 31"
    by (metis of_nat_less_iff of_nat_numeral of_nat_power)
  then have "signed_take_bit 31 (int n) = int n"
    by (intro signed_take_bit_int_eq_self) simp_all
  then show ?thesis
    by (simp only: signed_of_nat) simp
qed

lemma rgb_key_bytes:
  "rgb_key (unat (r :: 8 word), unat (g :: 8 word), unat (b :: 8 word)) < 2 ^ 24"
proof -
  have "unat r < 256" "unat g < 256" "unat b < 256"
    using unsigned_less [of r] unsigned_less [of g] unsigned_less [of b] by simp_all
  then show ?thesis by (simp add: rgb_key_def)
qed

text \<open>The int32 arithmetic of the decoder never wraps on bytes.\<close>

lemma int32_key:
  "sint (((ucast (r :: 8 word) :: 32 word) * 256 + ucast (g :: 8 word)) * 256 + ucast (b :: 8 word))
     = int (rgb_key (unat r, unat g, unat b))"
proof -
  have w: "((ucast r :: 32 word) * 256 + ucast g) * 256 + ucast b
             = word_of_nat (rgb_key (unat r, unat g, unat b))"
    by (simp add: rgb_key_def)
  have "rgb_key (unat r, unat g, unat b) < 2 ^ 31"
    using rgb_key_bytes [of r g b] by simp
  then show ?thesis
    unfolding w by (rule sint_of_nat_small)
qed

lemma nd_take_in_range:
  assumes "\<And>i j. 0 \<le> sint (at2 idx i j) \<and> sint (at2 idx i j) < int (len1 t)"
  shows "nd_take t idx =
           Inr \<lparr>rows2 = rows2 idx, cols2 = cols2 idx,
                at2 = (\<lambda>i j. at1 t (nat (sint (at2 idx i j))))\<rparr>"
proof -
  have "\<And>i j. \<not> (sint (at2 idx i j) < 0 \<or> int (len1 t) \<le> sint (at2 idx i j))"
    using assms by (simp add: not_less not_le)
  then show ?thesis
    unfolding nd_take_def list_ex_iff by simp
qed

lemma voc_label_indices_eq:
  assumes "len1 t = 256 ^ 3" and "3 \<le> shape2 colormap"
  shows "voc_label_indices colormap t =
           Inr \<lparr>rows2 = shape0 colormap, cols2 = shape1 colormap,
                at2 = (\<lambda>i j. at1 t (rgb_key (rgb_at colormap i j)))\<rparr>"
proof -
  let ?c = "astype_int32 colormap"
  let ?idx = "\<lparr>rows2 = shape0 ?c, cols2 = shape1 ?c,
               at2 = (\<lambda>i j. (at3 ?c i j 0 * 256 + at3 ?c i j 1) * 256 + at3 ?c i j 2)\<rparr>"
  have key: "\<And>i j. sint (at2 ?idx i j) = int (rgb_key (rgb_at colormap i j))"
    by (simp only: nd2.select_convs nd3.select_convs astype_int32_def int32_key rgb_at_def)
  have bound: "\<And>i j. rgb_key (rgb_at colormap i j) < len1 t"
    unfolding rgb_at_def using rgb_key_bytes assms(1) by simp
  have "nd_take t ?idx =
          Inr \<lparr>rows2 = rows2 ?idx, cols2 = cols2 ?idx,
               at2 = (\<lambda>i j. at1 t (nat (sint (at2 ?idx i j))))\<rparr>"
    by (rule nd_take_in_range) (simp only: key, simp add: bound)
  then have take: "nd_take t ?idx =
          Inr \<lparr>rows2 = shape0 colormap, cols2 = shape1 colormap,
               at2 = (\<lambda>i j. at1 t (rgb_key (rgb_at colormap i j)))\<rparr>"
    by (simp only: key nat_int) (simp add: astype_int32_def)
  have "\<not> shape2 ?c < 3"
    using assms(2) by (simp add: astype_int32_def)
  then have "voc_label_indices colormap t = nd_take t ?idx"
    by (simp only: voc_label_indices_def Let_def if_False)
  with take show ?thesis by (simp only:)
qed



text \<open>
  C3. For an H x W x 3 label image of bytes the decoder returns an H x W map whose
  value at every pixel is the table entry at the packed key \<open>(r * 256 + g) * 256 + b\<close>
  of that pixel's colour; where the colour is the \<open>k\<close>-th palette colour, the value
  is \<open>k\<close>.
\<close>

theorem voc_label_indices_decodes:
  assumes "colormap2label = Inr t" and "shape2 colormap = 3"
  shows "\<exists>m. voc_label_indices colormap t = Inr m \<and>
           rows2 m = shape0 colormap \<and> cols2 m = shape1 colormap \<and>
           (\<forall>i j r g b. i < shape0 colormap \<and> j < shape1 colormap \<and>
                rgb_at colormap i j = (r, g, b)
              \<longrightarrow> at2 m i j = at1 t ((r * 256 + g) * 256 + b)) \<and>
           (\<forall>i j k. i < shape0 colormap \<and> j < shape1 colormap \<and> k < 21 \<and>
                rgb_at colormap i j = VOC_COLORMAP ! k
              \<longrightarrow> at2 m i j = k)"
proof -
  let ?m = "\<lparr>rows2 = shape0 colormap, cols2 = shape1 colormap,
             at2 = (\<lambda>i j. at1 t (rgb_key (rgb_at colormap i j)))\<rparr>"
  from assms(2) have "3 \<le> shape2 colormap" by simp
  from voc_label_indices_eq [OF table_lookup(1) [OF assms(1)] this]
  have run: "voc_label_indices colormap t = Inr ?m" .
  have key: "at2 ?m i j = at1 t ((r * 256 + g) * 256 + b)"
    if "rgb_at colormap i j = (r, g, b)" for i j r g b
    using that by (simp add: rgb_key_def)
  have pal: "at2 ?m i j = k"
    if "k < 21" and "rgb_at colormap i j = VOC_COLORMAP ! k" for i j k
  proof -
    from that(1) have "k < length VOC_COLORMAP"
      by (simp only: VOC_COLORMAP_length)
    from table_palette [OF assms(1) this] that(2) show ?thesis by simp
  qed
  have "rows2 ?m = shape0 colormap" "cols2 ?m = shape1 colormap" by simp_all
  with run key pal show ?thesis by blast
qed

theorem voc_label_indices_decodes_witness:
  "\<exists>t m. colormap2label = Inr t \<and> shape2 example_label = 3 \<and>
       voc_label_indices example_label t = Inr m \<and> rows2 m = 1 \<and> cols2 m = 2 \<and>
       rgb_at example_label 0 0 = VOC_COLORMAP ! 1 \<and> at2 m 0 0 = 1"
proof -
  from colormap2label_table obtain t where t: "colormap2label = Inr t"
    by blast
  have s: "shape2 example_label = 3" "shape0 example_label = 1" "shape1 example_label = 2"
    by (simp_all add: example_label_def)
  have c: "rgb_at example_label 0 0 = VOC_COLORMAP ! 1"
    by (simp add: rgb_at_def example_label_def VOC_COLORMAP_def)
  from voc_label_indices_decodes [OF t s(1)] obtain m where
    run: "voc_label_indices example_label t = Inr m" and
    shape: "rows2 m = shape0 example_label" "cols2 m = shape1 example_label" and
    pal: "\<And>i j k. i < shape0 example_label \<and> j < shape1 example_label \<and> k < 21 \<and>
                rgb_at example_label i j = VOC_COLORMAP ! k \<Longrightarrow> at2 m i j = k"
    by blast
  from pal [of 0 0 1] c s have "at2 m 0 0 = 1" by simp
  moreover from shape s have "rows2 m = 1" "cols2 m = 2" by simp_all
  ultimately show ?thesis using t s(1) run c by blast
qed



section \<open>Properties of the paired random cropper\<close>

lemma scale_down_fits:
  assumes "w \<le> sw" and "h \<le> sh"
  shows "scale_down (sw, sh) (w, h) = (w, h)"
  using assms by (simp add: scale_down_def)

lemma randint_from_zero:
  assumes "part \<le> full"
  shows "randint 0 (int full - int part) r = Inr (int (r mod (full - part + 1)))"
proof -
  from assms have "int full - int part + 1 = int (full - part + 1)" by simp
  then have "int r mod (int full - int part + 1) = int (r mod (full - part + 1))"
    by (simp only: zmod_int)
  with assms show ?thesis by (simp add: randint_def)
qed

lemma offset_fits:
  assumes "part \<le> full"
  shows "r mod (full - part + 1) + part \<le> (full :: nat)"
proof -
  have "r mod (full - part + 1) < full - part + 1" by simp
  with assms show ?thesis by linarith
qed

lemma fixed_crop_no_resize:
  assumes "0 < h" "y0 + h \<le> shape0 src" "0 < w" "x0 + w \<le> shape1 src" "0 < shape2 src"
    and "resize = None \<or> (\<exists>imresize. resize = Some ((w, h), imresize))"
  shows "fixed_crop src x0 y0 w h resize =
           Inr \<lparr>shape0 = h, shape1 = w, shape2 = shape2 src,
                at3 = (\<lambda>i j c. at3 src (y0 + i) (x0 + j) c)\<rparr>"
  using assms by (auto simp: fixed_crop_def nd_slice_def)

lemma random_crop_fits:
  assumes "0 < h" "h \<le> shape0 src" "0 < w" "w \<le> shape1 src" "0 < shape2 src"
  shows "random_crop imresize src (w, h) rnd =
           Inr (\<lparr>shape0 = h, shape1 = w, shape2 = shape2 src,
                 at3 = (\<lambda>i j c. at3 src (snd rnd mod (shape0 src - h + 1) + i)
                                        (fst rnd mod (shape1 src - w + 1) + j) c)\<rparr>,
                (fst rnd mod (shape1 src - w + 1), snd rnd mod (shape0 src - h + 1), w, h))"
proof -
  let ?x0 = "fst rnd mod (shape1 src - w + 1)"
  let ?y0 = "snd rnd mod (shape0 src - h + 1)"
  have sd: "scale_down (shape1 src, shape0 src) (w, h) = (w, h)"
    using assms by (simp add: scale_down_fits)
  have rx: "randint 0 (int (shape1 src) - int w) (fst rnd) = Inr (int ?x0)"
    using assms by (simp only: randint_from_zero)
  have ry: "randint 0 (int (shape0 src) - int h) (snd rnd) = Inr (int ?y0)"
    using assms by (simp only: randint_from_zero)
  have fc: "fixed_crop src ?x0 ?y0 w h (Some ((w, h), imresize)) =
           Inr \<lparr>shape0 = h, shape1 = w, shape2 = shape2 src,
                at3 = (\<lambda>i j c. at3 src (?y0 + i) (?x0 + j) c)\<rparr>"
    using assms offset_fits [of h "shape0 src" "snd rnd"] offset_fits [of w "shape1 src" "fst rnd"]
    by (intro fixed_crop_no_resize) simp_all
  show ?thesis
    unfolding random_crop_def Let_def sd prod.case rx ry sum.case nat_int fc ..
qed

lemma voc_rand_crop_eq:
  assumes "0 < height" "height \<le> shape0 feature" "0 < width" "width \<le> shape1 feature"
    and "0 < shape2 feature" "0 < shape2 label"
    and "shape0 feature \<le> shape0 label" "shape1 feature \<le> shape1 label"
  shows "voc_rand_crop imresize feature label height width rnd =
           Inr (\<lparr>shape0 = height, shape1 = width, shape2 = shape2 feature,
                 at3 = (\<lambda>i j c. at3 feature (snd rnd mod (shape0 feature - height + 1) + i)
                                        (fst rnd mod (shape1 feature - width + 1) + j) c)\<rparr>,
                \<lparr>shape0 = height, shape1 = width, shape2 = shape2 label,
                 at3 = (\<lambda>i j c. at3 label (snd rnd mod (shape0 feature - height + 1) + i)
                                        (fst rnd mod (shape1 feature - width + 1) + j) c)\<rparr>)"
proof -
  let ?x0 = "fst rnd mod (shape1 feature - width + 1)"
  let ?y0 = "snd rnd mod (shape0 feature - height + 1)"
  have fits: "?y0 + height \<le> shape0 label" "?x0 + width \<le> shape1 label"
    using assms offset_fits [of height "shape0 feature" "snd rnd"]
      offset_fits [of width "shape1 feature" "fst rnd"]
    by simp_all
  have fc: "fixed_crop label ?x0 ?y0 width height None =
           Inr \<lparr>shape0 = height, shape1 = width, shape2 = shape2 label,
                at3 = (\<lambda>i j c. at3 label (?y0 + i) (?x0 + j) c)\<rparr>"
    using assms fits by (intro fixed_crop_no_resize) simp_all
  show ?thesis
    unfolding voc_rand_crop_def random_crop_fits [OF assms(1-5)] sum.case prod.case fc ..
qed

text \<open>
  C1. Given a feature and a label of identical height and width and a crop size that
  fits them, the cropper draws one offset \<open>(x0, y0)\<close> with
  \<open>x0 + width \<le> W\<close> and \<open>y0 + height \<le> H\<close> and returns two crops of that height
  and width, each holding the pixels of its image at that offset.
\<close>

theorem voc_rand_crop_aligned:
  assumes "shape0 label = shape0 feature" and "shape1 label = shape1 feature"
    and "0 < height" and "height \<le> shape0 feature"
    and "0 < width" and "width \<le> shape1 feature"
    and "0 < shape2 feature" and "0 < shape2 label"
  shows "\<exists>x0 y0 feature' label'.
           voc_rand_crop imresize feature label height width rnd = Inr (feature', label') \<and>
           x0 = fst rnd mod (shape1 feature - width + 1) \<and>
           y0 = snd rnd mod (shape0 feature - height + 1) \<and>
           x0 + width \<le> shape1 feature \<and> y0 + height \<le> shape0 feature \<and>
           shape0 feature' = height \<and> shape1 feature' = width \<and>
           shape2 feature' = shape2 feature \<and>
           shape0 label' = height \<and> shape1 label' = width \<and>
           shape2 label' = shape2 label \<and>
           (\<forall>i j c. i < height \<and> j < width \<longrightarrow>
              at3 feature' i j c = at3 feature (y0 + i) (x0 + j) c \<and>
              at3 label' i j c = at3 label (y0 + i) (x0 + j) c)"
proof -
  from assms(1,2) have "shape0 feature \<le> shape0 label" "shape1 feature \<le> shape1 label"
    by simp_all
  from voc_rand_crop_eq [OF assms(3-8) this]
  have run: "voc_rand_crop imresize feature label height width rnd =
           Inr (\<lparr>shape0 = height, shape1 = width, shape2 = shape2 feature,
                 at3 = (\<lambda>i j c. at3 feature (snd rnd mod (shape0 feature - height + 1) + i)
                                        (fst rnd mod (shape1 feature - width + 1) + j) c)\<rparr>,
                \<lparr>shape0 = height, shape1 = width, shape2 = shape2 label,
                 at3 = (\<lambda>i j c. at3 label (snd rnd mod (shape0 feature - height + 1) + i)
                                        (fst rnd mod (shape1 feature - width + 1) + j) c)\<rparr>)" .
  show ?thesis
    unfolding run
    using offset_fits [OF assms(4), of "snd rnd"] offset_fits [OF assms(6), of "fst rnd"]
    by simp
qed

theorem voc_rand_crop_aligned_witness:
  "\<exists>feature' label'.
     voc_rand_crop nearest_resize example_feature example_label 1 1 (1, 0)
       = Inr (feature', label') \<and>
     shape0 feature' = 1 \<and> shape1 feature' = 1 \<and> shape0 label' = 1 \<and> shape1 label' = 1 \<and>
     at3 feature' 0 0 0 = at3 example_feature 0 1 0 \<and>
     at3 label' 0 0 0 = at3 example_label 0 1 0"
proof -
  have h: "shape0 example_label = shape0 example_feature"
    "shape1 example_label = shape1 example_feature"
    "0 < (1 :: nat)" "1 \<le> shape0 example_feature"
    "0 < (1 :: nat)" "1 \<le> shape1 example_feature"
    "0 < shape2 example_feature" "0 < shape2 example_label"
    by (simp_all add: example_feature_def example_label_def)
  have x: "fst (1 :: nat, 0 :: nat) mod (shape1 example_feature - 1 + 1) = 1"
    and y: "snd (1 :: nat, 0 :: nat) mod (shape0 example_feature - 1 + 1) = 0"
    by (simp_all add: example_feature_def)
  from voc_rand_crop_aligned [OF h, of nearest_resize "(1, 0)"]
  show ?thesis
    unfolding x y by fastforce
qed

text \<open>
  C9, as amended. The cropper compares no dimensions. When the label is at least as
  tall and as wide as the feature, equal or not, it raises no error and returns the
  label cropped at the rectangle drawn for the feature.
\<close>

theorem voc_rand_crop_no_dimension_check:
  assumes "0 < height" and "height \<le> shape0 feature"
    and "0 < width" and "width \<le> shape1 feature"
    and "0 < shape2 feature" and "0 < shape2 label"
    and "shape0 feature \<le> shape0 label" and "shape1 feature \<le> shape1 label"
  shows "\<exists>feature' label'.
           voc_rand_crop imresize feature label height width rnd = Inr (feature', label') \<and>
           shape0 label' = height \<and> shape1 label' = width \<and>
           (\<forall>i j c. i < height \<and> j < width \<longrightarrow>
              at3 label' i j c =
                at3 label (snd rnd mod (shape0 feature - height + 1) + i)
                          (fst rnd mod (shape1 feature - width + 1) + j) c)"
  unfolding voc_rand_crop_eq [OF assms] by simp

theorem voc_rand_crop_no_dimension_check_witness:
  "shape0 example_feature < shape0 example_big_label \<and>
   (\<exists>feature' label'.
      voc_rand_crop nearest_resize example_feature example_big_label 1 1 (1, 0)
        = Inr (feature', label') \<and>
      shape0 label' = 1 \<and> shape1 label' = 1 \<and>
      at3 label' 0 0 0 = at3 example_big_label 0 1 0)"
proof -
  have h: "0 < (1 :: nat)" "1 \<le> shape0 example_feature"
    "0 < (1 :: nat)" "1 \<le> shape1 example_feature"
    "0 < shape2 example_feature" "0 < shape2 example_big_label"
    "shape0 example_feature \<le> shape0 example_big_label"
    "shape1 example_feature \<le> shape1 example_big_label"
    by (simp_all add: example_feature_def example_big_label_def)
  have x: "fst (1 :: nat, 0 :: nat) mod (shape1 example_feature - 1 + 1) = 1"
    and y: "snd (1 :: nat, 0 :: nat) mod (shape0 example_feature - 1 + 1) = 0"
    by (simp_all add: example_feature_def)
  have lt: "shape0 example_feature < shape0 example_big_label"
    by (simp add: example_feature_def example_big_label_def)
  from voc_rand_crop_no_dimension_check [OF h, of nearest_resize "(1, 0)"]
  show ?thesis
    unfolding x y using lt by fastforce
qed

text \<open>
  The claim C9 as stated fails: a feature of height 1 and width 2 with a label of
  height 3 and width 3 is cropped without any error.
\<close>

theorem voc_rand_crop_mismatch_counterexample:
  "(shape0 example_feature, shape1 example_feature)
      \<noteq> (shape0 example_big_label, shape1 example_big_label) \<and>
   \<not> isl (voc_rand_crop nearest_resize example_feature example_big_label 1 1 (1, 0)) \<and>
   shape0 (snd (projr (voc_rand_crop nearest_resize example_feature example_big_label 1 1 (1, 0)))) = 1 \<and>
   shape1 (snd (projr (voc_rand_crop nearest_resize example_feature example_big_label 1 1 (1, 0)))) = 1"
  by (simp add: voc_rand_crop_def random_crop_def fixed_crop_def nd_slice_def scale_down_def
        randint_def example_feature_def example_big_label_def)

section \<open>Properties of normalisation\<close>

lemma init_rgb_lengths: "len1 (init_rgb_mean ops) = 3" "len1 (init_rgb_std ops) = 3"
  by (simp_all add: init_rgb_mean_def init_rgb_std_def nd_array_def)

lemma normalize_image_eq:
  assumes "shape2 img = 3" and "len1 mean = 3" and "len1 std = 3"
  shows "normalize_image ops mean std img =
           Inr \<lparr>shape0 = shape0 img, shape1 = shape1 img, shape2 = 3,
                at3 = (\<lambda>i j c. fdiv ops (fsub ops (fdiv ops (of_uint8 ops (at3 img i j c))
                                                         (of_const ops 255))
                                             (at1 mean c))
                                   (at1 std c))\<rparr>"
  using assms
  by (simp add: normalize_image_def broadcast_channels_def div_scalar_def astype_float32_def)

text \<open>
  C6. For an image with three channels of bytes, normalisation returns an image of the
  same shape whose value at every pixel and channel \<open>c\<close> is
  \<open>(value / 255 - mean c) / std c\<close> in the framework's float arithmetic, with the
  means 0.485, 0.456, 0.406 and the standard deviations 0.229, 0.224, 0.225.
\<close>

theorem normalize_image_formula:
  assumes "shape2 img = 3"
  shows "\<exists>out. normalize_image ops (init_rgb_mean ops) (init_rgb_std ops) img = Inr out \<and>
           shape0 out = shape0 img \<and> shape1 out = shape1 img \<and> shape2 out = shape2 img \<and>
           (\<forall>i j c. i < shape0 img \<and> j < shape1 img \<and> c < 3 \<longrightarrow>
              at3 out i j c =
                fdiv ops (fsub ops (fdiv ops (of_uint8 ops (at3 img i j c)) (of_const ops 255))
                                   (of_const ops ([485 / 1000, 456 / 1000, 406 / 1000] ! c)))
                         (of_const ops ([229 / 1000, 224 / 1000, 225 / 1000] ! c)))"
proof -
  have m: "at1 (init_rgb_mean ops) c = of_const ops ([485 / 1000, 456 / 1000, 406 / 1000] ! c)"
    and d: "at1 (init_rgb_std ops) c = of_const ops ([229 / 1000, 224 / 1000, 225 / 1000] ! c)"
    if "c < 3" for c
  proof -
    from that have "c < length [485 / 1000, 456 / 1000, 406 / 1000 :: rat]"
      and "c < length [229 / 1000, 224 / 1000, 225 / 1000 :: rat]"
      by simp_all
    then show "at1 (init_rgb_mean ops) c
                 = of_const ops ([485 / 1000, 456 / 1000, 406 / 1000] ! c)"
      and "at1 (init_rgb_std ops) c
                 = of_const ops ([229 / 1000, 224 / 1000, 225 / 1000] ! c)"
      by (simp_all only: init_rgb_mean_def init_rgb_std_def nd_array_def nd1.select_convs
            nth_map)
  qed
  show ?thesis
    unfolding normalize_image_eq [OF assms init_rgb_lengths]
    using assms m d by simp
qed

theorem normalize_image_formula_witness:
  "shape2 example_gray = 3 \<and>
   (\<exists>out. normalize_image exact_float32 (init_rgb_mean exact_float32)
             (init_rgb_std exact_float32) example_gray = Inr out \<and>
      shape0 out = 1 \<and> shape1 out = 1 \<and> shape2 out = 3 \<and>
      at3 out 0 0 0 = (128 / 255 - 485 / 1000) / (229 / 1000) \<and>
      at3 out 0 0 1 = (128 / 255 - 456 / 1000) / (224 / 1000) \<and>
      at3 out 0 0 2 = (128 / 255 - 406 / 1000) / (225 / 1000))"
proof -
  have h: "shape2 example_gray = 3"
    by (simp add: example_gray_def)
  from normalize_image_formula [OF h, of exact_float32] obtain out where
    run: "normalize_image exact_float32 (init_rgb_mean exact_float32)
            (init_rgb_std exact_float32) example_gray = Inr out" and
    shape: "shape0 out = shape0 example_gray" "shape1 out = shape1 example_gray"
      "shape2 out = shape2 example_gray" and
    at: "\<And>i j c. i < shape0 example_gray \<and> j < shape1 example_gray \<and> c < 3 \<Longrightarrow>
              at3 out i j c =
                fdiv exact_float32 (fsub exact_float32 (fdiv exact_float32 (of_uint8 exact_float32 (at3 example_gray i j c)) (of_const exact_float32 255))
                                   (of_const exact_float32 ([485 / 1000, 456 / 1000, 406 / 1000] ! c)))
                         (of_const exact_float32 ([229 / 1000, 224 / 1000, 225 / 1000] ! c))"
    by blast
  have "at3 out 0 0 0 = (128 / 255 - 485 / 1000) / (229 / 1000)"
    "at3 out 0 0 1 = (128 / 255 - 456 / 1000) / (224 / 1000)"
    "at3 out 0 0 2 = (128 / 255 - 406 / 1000) / (225 / 1000)"
    using at [of 0 0 0] at [of 0 0 1] at [of 0 0 2]
    by (simp_all add: example_gray_def exact_float32_def)
  moreover from shape have "shape0 out = 1" "shape1 out = 1" "shape2 out = 3"
    by (simp_all add: example_gray_def)
  ultimately show ?thesis using h run by blast
qed

section \<open>Properties of the dataset\<close>

lemma map_raising_Inr:
  assumes "\<forall>x \<in> set xs. f x = Inr (g x)"
  shows "map_raising f xs = Inr (map g xs)"
  using assms by (induction xs) simp_all

lemma filter_imgs_subset: "set (filter_imgs crop imgs) \<subseteq> set imgs"
  by (simp add: filter_imgs_def)

lemma VOCSegDataset_init_eq:
  assumes "\<forall>f \<in> set fs. shape2 f = 3"
  shows "\<exists>g. (\<forall>f. shape2 f = 3 \<longrightarrow>
                 normalize_image ops (init_rgb_mean ops) (init_rgb_std ops) f = Inr (g f)) \<and>
             VOCSegDataset_init ops crop fs ls c2l =
               Inr \<lparr>rgb_mean = init_rgb_mean ops, rgb_std = init_rgb_std ops,
                    crop_size = crop, features = map g (filter_imgs crop fs),
                    labels = filter_imgs crop ls, self_colormap2label = c2l\<rparr>"
proof -
  let ?g = "\<lambda>img. \<lparr>shape0 = shape0 img, shape1 = shape1 img, shape2 = 3,
                at3 = (\<lambda>i j c. fdiv ops (fsub ops (fdiv ops (of_uint8 ops (at3 img i j c))
                                                         (of_const ops 255))
                                             (at1 (init_rgb_mean ops) c))
                                   (at1 (init_rgb_std ops) c))\<rparr>"
  have g: "\<forall>f. shape2 f = 3 \<longrightarrow>
             normalize_image ops (init_rgb_mean ops) (init_rgb_std ops) f = Inr (?g f)"
    by (simp add: normalize_image_eq init_rgb_lengths)
  with assms filter_imgs_subset [of crop fs]
  have "\<forall>f \<in> set (filter_imgs crop fs).
          normalize_image ops (init_rgb_mean ops) (init_rgb_std ops) f = Inr (?g f)"
    by blast
  then have "map_raising (normalize_image ops (init_rgb_mean ops) (init_rgb_std ops))
               (filter_imgs crop fs) = Inr (map ?g (filter_imgs crop fs))"
    by (rule map_raising_Inr)
  then have "VOCSegDataset_init ops crop fs ls c2l =
               Inr \<lparr>rgb_mean = init_rgb_mean ops, rgb_std = init_rgb_std ops,
                    crop_size = crop, features = map ?g (filter_imgs crop fs),
                    labels = filter_imgs crop ls, self_colormap2label = c2l\<rparr>"
    by (simp add: VOCSegDataset_init_def Let_def)
  with g show ?thesis
    by (intro exI [where x = ?g] conjI)
qed

text \<open>
  C4. For a dataset built from a list of feature and label pairs and the crop size
  \<open>(cropH, cropW)\<close>, the constructor raises no error and the length is the number
  of pairs whose feature has height at least \<open>cropH\<close> and width at least \<open>cropW\<close>.
\<close>

theorem len_counts_retained_pairs:
  assumes "\<forall>p \<in> set pairs. shape2 (fst p) = 3"
  shows "\<exists>ds. VOCSegDataset_init ops (cropH, cropW) (map fst pairs) (map snd pairs) c2l = Inr ds \<and>
           len ds = length (filter (\<lambda>p. shape0 (fst p) \<ge> cropH \<and> shape1 (fst p) \<ge> cropW) pairs)"
proof -
  from assms have "\<forall>f \<in> set (map fst pairs). shape2 f = 3" by simp
  from VOCSegDataset_init_eq [OF this, of ops "(cropH, cropW)" "map snd pairs" c2l]
  obtain g where
    run: "VOCSegDataset_init ops (cropH, cropW) (map fst pairs) (map snd pairs) c2l =
               Inr \<lparr>rgb_mean = init_rgb_mean ops, rgb_std = init_rgb_std ops,
                    crop_size = (cropH, cropW),
                    features = map g (filter_imgs (cropH, cropW) (map fst pairs)),
                    labels = filter_imgs (cropH, cropW) (map snd pairs),
                    self_colormap2label = c2l\<rparr>"
    by blast
  have "length (filter_imgs (cropH, cropW) (map fst pairs)) =
          length (filter (\<lambda>p. shape0 (fst p) \<ge> cropH \<and> shape1 (fst p) \<ge> cropW) pairs)"
    by (simp add: filter_imgs_def filter_map comp_def)
  then show ?thesis
    unfolding run by (simp add: len_def)
qed

theorem len_counts_retained_pairs_witness:
  "\<exists>ds. VOCSegDataset_init exact_float32 (2, 2)
           (map fst [(example_big_feature, example_big_label), (example_feature, example_label),
                     (example_big_feature, example_big_label), (example_gray, example_gray),
                     (example_big_feature, example_big_label)])
           (map snd [(example_big_feature, example_big_label), (example_feature, example_label),
                     (example_big_feature, example_big_label), (example_gray, example_gray),
                     (example_big_feature, example_big_label)])
           (nd_zeros (256 ^ 3)) = Inr ds \<and>
         len ds = 3"
proof -
  let ?pairs = "[(example_big_feature, example_big_label), (example_feature, example_label),
                 (example_big_feature, example_big_label), (example_gray, example_gray),
                 (example_big_feature, example_big_label)]"
  have h: "\<forall>p \<in> set ?pairs. shape2 (fst p) = 3"
    by (simp add: example_feature_def example_big_feature_def example_gray_def)
  have n: "length (filter (\<lambda>p. shape0 (fst p) \<ge> 2 \<and> shape1 (fst p) \<ge> 2) ?pairs) = 3"
    by (simp add: example_feature_def example_big_feature_def example_gray_def)
  from len_counts_retained_pairs [OF h, of exact_float32 2 2 "nd_zeros (256 ^ 3)"]
  show ?thesis
    unfolding n .
qed

lemma filter_zip_aligned:
  assumes "list_all2 (\<lambda>f l. P f = Q l) fs ls"
  shows "filter P fs = map fst (filter (\<lambda>p. P (fst p)) (zip fs ls)) \<and>
         filter Q ls = map snd (filter (\<lambda>p. P (fst p)) (zip fs ls))"
  using assms by (induction rule: list_all2_induct) simp_all

lemma normalize_image_shape:
  assumes "shape2 f = 3"
  shows "\<exists>f'. normalize_image ops (init_rgb_mean ops) (init_rgb_std ops) f = Inr f' \<and>
           shape0 f' = shape0 f \<and> shape1 f' = shape1 f \<and> shape2 f' = 3"
  unfolding normalize_image_eq [OF assms init_rgb_lengths] by simp

lemma dataset_pairs:
  assumes "length fs = length ls"
    and "\<forall>i < length fs. shape0 (ls ! i) = shape0 (fs ! i) \<and> shape1 (ls ! i) = shape1 (fs ! i)"
    and "\<forall>f \<in> set fs. shape2 f = 3"
  shows "\<exists>g. (\<forall>f. shape2 f = 3 \<longrightarrow>
                 normalize_image ops (init_rgb_mean ops) (init_rgb_std ops) f = Inr (g f)) \<and>
             VOCSegDataset_init ops (cropH, cropW) fs ls c2l =
               Inr \<lparr>rgb_mean = init_rgb_mean ops, rgb_std = init_rgb_std ops,
                    crop_size = (cropH, cropW),
                    features = map (\<lambda>p. g (fst p))
                      (filter (\<lambda>p. shape0 (fst p) \<ge> cropH \<and> shape1 (fst p) \<ge> cropW) (zip fs ls)),
                    labels = map snd
                      (filter (\<lambda>p. shape0 (fst p) \<ge> cropH \<and> shape1 (fst p) \<ge> cropW) (zip fs ls)),
                    self_colormap2label = c2l\<rparr>"
proof -
  let ?P = "\<lambda>img :: 8 word nd3. shape0 img \<ge> cropH \<and> shape1 img \<ge> cropW"
  from assms(1,2) have "list_all2 (\<lambda>f l. ?P f = ?P l) fs ls"
    by (simp add: list_all2_conv_all_nth)
  from filter_zip_aligned [OF this]
  have ff: "filter_imgs (cropH, cropW) fs = map fst (filter (\<lambda>p. ?P (fst p)) (zip fs ls))"
    and fl: "filter_imgs (cropH, cropW) ls = map snd (filter (\<lambda>p. ?P (fst p)) (zip fs ls))"
    by (simp_all add: filter_imgs_def)
  from VOCSegDataset_init_eq [OF assms(3), of ops "(cropH, cropW)" ls c2l]
  obtain g where
    g: "\<forall>f. shape2 f = 3 \<longrightarrow>
          normalize_image ops (init_rgb_mean ops) (init_rgb_std ops) f = Inr (g f)" and
    run: "VOCSegDataset_init ops (cropH, cropW) fs ls c2l =
               Inr \<lparr>rgb_mean = init_rgb_mean ops, rgb_std = init_rgb_std ops,
                    crop_size = (cropH, cropW),
                    features = map g (filter_imgs (cropH, cropW) fs),
                    labels = filter_imgs (cropH, cropW) ls, self_colormap2label = c2l\<rparr>"
    by blast
  have "map g (filter_imgs (cropH, cropW) fs)
          = map (\<lambda>p. g (fst p)) (filter (\<lambda>p. ?P (fst p)) (zip fs ls))"
    unfolding ff by (simp add: comp_def)
  with run fl g show ?thesis
    by (intro exI [where x = g] conjI) simp_all
qed

text \<open>
  C10. The constructor filters the two lists separately with one predicate. When the
  \<open>i\<close>-th feature and the \<open>i\<close>-th label have the same height and width for every
  \<open>i\<close>, both stored lists are as long as the list \<open>kept\<close> of retained pairs, and at
  every position the stored feature is the normalised feature of the pair of \<open>kept\<close>
  at that position and the stored label is its label.
\<close>

theorem filtered_lists_aligned:
  assumes "length fs = length ls"
    and "\<forall>i < length fs. shape0 (ls ! i) = shape0 (fs ! i) \<and> shape1 (ls ! i) = shape1 (fs ! i)"
    and "\<forall>f \<in> set fs. shape2 f = 3"
  shows "\<exists>ds kept.
           VOCSegDataset_init ops (cropH, cropW) fs ls c2l = Inr ds \<and>
           kept = filter (\<lambda>p. shape0 (fst p) \<ge> cropH \<and> shape1 (fst p) \<ge> cropW) (zip fs ls) \<and>
           length (features ds) = length kept \<and> length (labels ds) = length kept \<and>
           (\<forall>idx. idx < length kept \<longrightarrow>
              normalize_image ops (init_rgb_mean ops) (init_rgb_std ops) (fst (kept ! idx))
                = Inr (features ds ! idx) \<and>
              labels ds ! idx = snd (kept ! idx))"
proof -
  let ?kept = "filter (\<lambda>p. shape0 (fst p) \<ge> cropH \<and> shape1 (fst p) \<ge> cropW) (zip fs ls)"
  from dataset_pairs [OF assms, of ops cropH cropW c2l] obtain g where
    g: "\<And>f. shape2 f = 3 \<Longrightarrow>
          normalize_image ops (init_rgb_mean ops) (init_rgb_std ops) f = Inr (g f)" and
    run: "VOCSegDataset_init ops (cropH, cropW) fs ls c2l =
               Inr \<lparr>rgb_mean = init_rgb_mean ops, rgb_std = init_rgb_std ops,
                    crop_size = (cropH, cropW),
                    features = map (\<lambda>p. g (fst p)) ?kept,
                    labels = map snd ?kept,
                    self_colormap2label = c2l\<rparr>"
    by blast
  have "normalize_image ops (init_rgb_mean ops) (init_rgb_std ops) (fst (?kept ! idx))
          = Inr (map (\<lambda>p. g (fst p)) ?kept ! idx)"
    if "idx < length ?kept" for idx
  proof -
    from that have "?kept ! idx \<in> set (zip fs ls)"
      using nth_mem [OF that] by simp
    then have "(fst (?kept ! idx), snd (?kept ! idx)) \<in> set (zip fs ls)"
      by (simp only: prod.collapse)
    then have "fst (?kept ! idx) \<in> set fs"
      by (rule set_zip_leftD)
    with assms(3) have "shape2 (fst (?kept ! idx)) = 3" by blast
    from g [OF this] that show ?thesis by simp
  qed
  then show ?thesis
    unfolding run by simp
qed

theorem filtered_lists_aligned_witness:
  "\<exists>ds. VOCSegDataset_init exact_float32 (1, 2)
           [example_gray, example_feature, example_big_feature]
           [example_gray, example_label, example_big_label] (nd_zeros (256 ^ 3)) = Inr ds \<and>
         length (features ds) = 2 \<and> length (labels ds) = 2 \<and>
         normalize_image exact_float32 (init_rgb_mean exact_float32)
           (init_rgb_std exact_float32) example_big_feature = Inr (features ds ! 1) \<and>
         labels ds ! 1 = example_big_label"
proof -
  let ?fs = "[example_gray, example_feature, example_big_feature]"
  let ?ls = "[example_gray, example_label, example_big_label]"
  have h: "length ?fs = length ?ls"
    "\<forall>i < length ?fs. shape0 (?ls ! i) = shape0 (?fs ! i) \<and> shape1 (?ls ! i) = shape1 (?fs ! i)"
    "\<forall>f \<in> set ?fs. shape2 f = 3"
    by (simp_all add: example_feature_def example_label_def example_big_feature_def
          example_big_label_def example_gray_def less_Suc_eq numeral_3_eq_3)
  have k: "filter (\<lambda>p. shape0 (fst p) \<ge> 1 \<and> shape1 (fst p) \<ge> 2) (zip ?fs ?ls)
             = [(example_feature, example_label), (example_big_feature, example_big_label)]"
    by (simp add: example_feature_def example_big_feature_def example_gray_def)
  from filtered_lists_aligned [OF h, of exact_float32 1 2 "nd_zeros (256 ^ 3)"]
  show ?thesis
    unfolding k by fastforce
qed

lemma crop_and_decode:
  assumes "0 < cropH" "cropH \<le> shape0 F" "0 < cropW" "cropW \<le> shape1 F"
    and "shape2 F = 3" "shape2 L = 3"
    and "shape0 F \<le> shape0 L" "shape1 F \<le> shape1 L"
    and "len1 t = 256 ^ 3"
  shows "\<exists>feature label indices.
           voc_rand_crop imresize F L cropH cropW rnd = Inr (feature, label) \<and>
           voc_label_indices label t = Inr indices \<and>
           shape0 feature = cropH \<and> shape1 feature = cropW \<and> shape2 feature = 3 \<and>
           rows2 indices = cropH \<and> cols2 indices = cropW"
proof -
  let ?x0 = "fst rnd mod (shape1 F - cropW + 1)"
  let ?y0 = "snd rnd mod (shape0 F - cropH + 1)"
  let ?feature = "\<lparr>shape0 = cropH, shape1 = cropW, shape2 = shape2 F,
                   at3 = (\<lambda>i j c. at3 F (?y0 + i) (?x0 + j) c)\<rparr>"
  let ?label = "\<lparr>shape0 = cropH, shape1 = cropW, shape2 = shape2 L,
                 at3 = (\<lambda>i j c. at3 L (?y0 + i) (?x0 + j) c)\<rparr>"
  from assms(5,6) have c: "0 < shape2 F" "0 < shape2 L" by simp_all
  have crop: "voc_rand_crop imresize F L cropH cropW rnd = Inr (?feature, ?label)"
    by (rule voc_rand_crop_eq [OF assms(1-4) c assms(7,8)])
  from assms(6) have "3 \<le> shape2 ?label" by simp
  from voc_label_indices_eq [OF assms(9) this]
  have dec: "voc_label_indices ?label t =
           Inr \<lparr>rows2 = shape0 ?label, cols2 = shape1 ?label,
                at2 = (\<lambda>i j. at1 t (rgb_key (rgb_at ?label i j)))\<rparr>" .
  show ?thesis
    unfolding crop using dec assms(5) by simp
qed

lemma getitem_eq:
  assumes "list_getitem (features ds) idx = Inr F" and "list_getitem (labels ds) idx = Inr L"
    and "voc_rand_crop imresize F L (fst (crop_size ds)) (snd (crop_size ds)) rnd
           = Inr (feature, label)"
    and "voc_label_indices label (self_colormap2label ds) = Inr indices"
  shows "getitem imresize ds idx rnd = Inr (transpose_201 feature, indices)"
  by (simp add: getitem_def assms)

lemma list_getitem_valid:
  assumes "0 \<le> idx" and "idx < int (length xs)"
  shows "list_getitem xs idx = Inr (xs ! nat idx)"
  using assms by (simp add: list_getitem_def)

lemma list_getitem_wraps:
  assumes "- int (length xs) \<le> idx" and "idx < 0"
  shows "list_getitem xs idx = list_getitem xs (idx + int (length xs))"
  using assms by (simp add: list_getitem_def add.commute)

lemma list_getitem_outside:
  assumes "int (length xs) \<le> idx \<or> idx < - int (length xs)"
  shows "list_getitem xs idx = Inl IndexError"
  using assms by (auto simp: list_getitem_def)

lemma getitem_dataset:
  assumes "len1 t = 256 ^ 3"
    and "VOCSegDataset_init ops (cropH, cropW) fs ls t = Inr ds"
    and "length fs = length ls"
    and "\<forall>i < length fs. shape0 (ls ! i) = shape0 (fs ! i) \<and> shape1 (ls ! i) = shape1 (fs ! i)"
    and "\<forall>f \<in> set fs. shape2 f = 3" and "\<forall>l \<in> set ls. shape2 l = 3"
    and "0 < cropH" and "0 < cropW"
    and "0 \<le> idx" and "idx < int (len ds)"
  shows "\<exists>feature indices.
           getitem imresize ds idx rnd = Inr (feature, indices) \<and>
           shape0 feature = 3 \<and> shape1 feature = cropH \<and> shape2 feature = cropW \<and>
           rows2 indices = cropH \<and> cols2 indices = cropW"
proof -
  let ?kept = "filter (\<lambda>p. shape0 (fst p) \<ge> cropH \<and> shape1 (fst p) \<ge> cropW) (zip fs ls)"
  from dataset_pairs [OF assms(3-5), of ops cropH cropW t] obtain g where
    g: "\<And>f. shape2 f = 3 \<Longrightarrow>
          normalize_image ops (init_rgb_mean ops) (init_rgb_std ops) f = Inr (g f)" and
    run: "VOCSegDataset_init ops (cropH, cropW) fs ls t =
               Inr \<lparr>rgb_mean = init_rgb_mean ops, rgb_std = init_rgb_std ops,
                    crop_size = (cropH, cropW),
                    features = map (\<lambda>p. g (fst p)) ?kept,
                    labels = map snd ?kept,
                    self_colormap2label = t\<rparr>"
    by blast
  from run assms(2) have ds: "ds = \<lparr>rgb_mean = init_rgb_mean ops, rgb_std = init_rgb_std ops,
                    crop_size = (cropH, cropW),
                    features = map (\<lambda>p. g (fst p)) ?kept,
                    labels = map snd ?kept,
                    self_colormap2label = t\<rparr>"
    by simp
  have fields: "features ds = map (\<lambda>p. g (fst p)) ?kept" "labels ds = map snd ?kept"
    "crop_size ds = (cropH, cropW)" "self_colormap2label ds = t"
    unfolding ds by simp_all
  define k where "k = nat idx"
  from assms(9,10) fields(1) have k: "k < length ?kept"
    by (simp add: k_def len_def)
  obtain f l where p: "?kept ! k = (f, l)" by (cases "?kept ! k")
  from nth_mem [OF k] p have mem: "(f, l) \<in> set (zip fs ls)"
    and fitH: "cropH \<le> shape0 f" and fitW: "cropW \<le> shape1 f"
    by auto
  from mem obtain i where i: "i < length fs" "fs ! i = f" "ls ! i = l"
    using assms(3) by (auto simp: in_set_zip)
  with assms(4) have same: "shape0 l = shape0 f" "shape1 l = shape1 f" by auto
  from mem have "f \<in> set fs" "l \<in> set ls"
    by (auto dest: set_zip_leftD set_zip_rightD)
  with assms(5,6) have ch: "shape2 f = 3" "shape2 l = 3" by auto
  from normalize_image_shape [OF ch(1), of ops] g [OF ch(1)]
  have gs: "shape0 (g f) = shape0 f" "shape1 (g f) = shape1 f" "shape2 (g f) = 3"
    by auto
  have F: "list_getitem (features ds) idx = Inr (g f)"
    using list_getitem_valid [of idx "features ds"] assms(9,10) k p
    by (simp add: fields len_def k_def)
  have L: "list_getitem (labels ds) idx = Inr l"
    using list_getitem_valid [of idx "labels ds"] assms(9,10) k p
    by (simp add: fields len_def k_def)
  from crop_and_decode [of cropH "g f" cropW l t imresize rnd] assms(7,8,1) fitH fitW gs ch same
  obtain feature label indices where
    crop: "voc_rand_crop imresize (g f) l cropH cropW rnd = Inr (feature, label)" and
    dec: "voc_label_indices label t = Inr indices" and
    shapes: "shape0 feature = cropH" "shape1 feature = cropW" "shape2 feature = 3"
      "rows2 indices = cropH" "cols2 indices = cropW"
    by auto
  have crop': "voc_rand_crop imresize (g f) l (fst (crop_size ds)) (snd (crop_size ds)) rnd
                 = Inr (feature, label)"
    unfolding fields fst_conv snd_conv by (rule crop)
  have dec': "voc_label_indices label (self_colormap2label ds) = Inr indices"
    unfolding fields by (rule dec)
  have "getitem imresize ds idx rnd = Inr (transpose_201 feature, indices)"
    by (rule getitem_eq [OF F L crop' dec'])
  with shapes show ?thesis
    by (simp add: transpose_201_def)
qed

lemma getitem_wraps:
  assumes "length (labels ds) = len ds" and "- int (len ds) \<le> idx" and "idx < 0"
  shows "getitem imresize ds idx rnd = getitem imresize ds (idx + int (len ds)) rnd"
proof -
  from assms(2,3) have "list_getitem (features ds) idx
                          = list_getitem (features ds) (idx + int (len ds))"
    unfolding len_def by (rule list_getitem_wraps)
  moreover from assms have "list_getitem (labels ds) idx
                          = list_getitem (labels ds) (idx + int (len ds))"
    using list_getitem_wraps [of "labels ds" idx] by simp
  ultimately show ?thesis
    by (simp only: getitem_def)
qed

lemma getitem_outside:
  assumes "int (len ds) \<le> idx \<or> idx < - int (len ds)"
  shows "getitem imresize ds idx rnd = Inl IndexError"
proof -
  from assms have "list_getitem (features ds) idx = Inl IndexError"
    unfolding len_def by (rule list_getitem_outside)
  then show ?thesis
    by (simp add: getitem_def)
qed

lemma example_dataset_built:
  "\<exists>t. colormap2label = Inr t \<and>
       VOCSegDataset_init exact_float32 (1, 1) [example_feature] [example_label] t
         = Inr example_dataset \<and>
       len example_dataset = 1 \<and> length (labels example_dataset) = 1"
proof -
  from colormap2label_table obtain t where t: "colormap2label = Inr t"
    by blast
  have h: "length [example_feature] = length [example_label]"
    "\<forall>i < length [example_feature].
        shape0 ([example_label] ! i) = shape0 ([example_feature] ! i) \<and>
        shape1 ([example_label] ! i) = shape1 ([example_feature] ! i)"
    "\<forall>f \<in> set [example_feature]. shape2 f = 3"
    by (simp_all add: example_feature_def example_label_def)
  have k: "filter (\<lambda>p. shape0 (fst p) \<ge> 1 \<and> shape1 (fst p) \<ge> 1)
             (zip [example_feature] [example_label]) = [(example_feature, example_label)]"
    by (simp add: example_feature_def)
  from dataset_pairs [OF h, of exact_float32 1 1 t] obtain ds where
    run: "VOCSegDataset_init exact_float32 (1, 1) [example_feature] [example_label] t = Inr ds"
    and n: "len ds = 1" "length (labels ds) = 1"
    unfolding k by (auto simp: len_def)
  from t have "projr colormap2label = t" by (metis sum.sel(2))
  with run have "example_dataset = ds"
    by (simp add: example_dataset_def)
  with t run n show ?thesis by blast
qed

text \<open>
  C5. For a dataset built from pairs of three-channel images of equal height and width,
  with a positive crop size and the table of the notebook, every call of get at an
  index \<open>0 \<le> idx < length\<close> returns, whatever the random draws, a feature of shape
  \<open>(3, cropH, cropW)\<close> and a label map of shape \<open>(cropH, cropW)\<close>.
\<close>

theorem getitem_shapes:
  assumes "colormap2label = Inr t"
    and "VOCSegDataset_init ops (cropH, cropW) fs ls t = Inr ds"
    and "length fs = length ls"
    and "\<forall>i < length fs. shape0 (ls ! i) = shape0 (fs ! i) \<and> shape1 (ls ! i) = shape1 (fs ! i)"
    and "\<forall>f \<in> set fs. shape2 f = 3" and "\<forall>l \<in> set ls. shape2 l = 3"
    and "0 < cropH" and "0 < cropW"
    and "0 \<le> idx" and "idx < int (len ds)"
  shows "\<exists>feature indices.
           getitem imresize ds idx rnd = Inr (feature, indices) \<and>
           shape0 feature = 3 \<and> shape1 feature = cropH \<and> shape2 feature = cropW \<and>
           rows2 indices = cropH \<and> cols2 indices = cropW"
  by (rule getitem_dataset [OF table_lookup(1) [OF assms(1)] assms(2-10)])

theorem getitem_shapes_witness:
  "\<exists>t feature indices.
     colormap2label = Inr t \<and>
     VOCSegDataset_init exact_float32 (1, 1) [example_feature] [example_label] t
       = Inr example_dataset \<and>
     (0 :: int) < int (len example_dataset) \<and>
     getitem nearest_resize example_dataset 0 (1, 0) = Inr (feature, indices) \<and>
     shape0 feature = 3 \<and> shape1 feature = 1 \<and> shape2 feature = 1 \<and>
     rows2 indices = 1 \<and> cols2 indices = 1"
proof -
  from example_dataset_built obtain t where t: "colormap2label = Inr t"
    and run: "VOCSegDataset_init exact_float32 (1, 1) [example_feature] [example_label] t
                = Inr example_dataset"
    and n: "len example_dataset = 1"
    by blast
  have h: "length [example_feature] = length [example_label]"
    "\<forall>i < length [example_feature].
        shape0 ([example_label] ! i) = shape0 ([example_feature] ! i) \<and>
        shape1 ([example_label] ! i) = shape1 ([example_feature] ! i)"
    "\<forall>f \<in> set [example_feature]. shape2 f = 3"
    "\<forall>l \<in> set [example_label]. shape2 l = 3"
    "0 < (1 :: nat)" "0 < (1 :: nat)" "0 \<le> (0 :: int)"
    by (simp_all add: example_feature_def example_label_def)
  from n have i: "(0 :: int) < int (len example_dataset)" by simp
  from getitem_shapes [OF t run h i, of nearest_resize "(1, 0)"] t run i
  show ?thesis by blast
qed

text \<open>
  C7, as amended. For every index \<open>idx \<ge> length\<close> or \<open>idx < - length\<close> get fails
  with IndexError, which it does not catch. An index \<open>- length \<le> idx < 0\<close> is not
  rejected: it counts from the end, and where the two stored lists have one length
  get behaves there as at \<open>idx + length\<close>.
\<close>

theorem getitem_index_error:
  "(int (len ds) \<le> idx \<or> idx < - int (len ds)
      \<longrightarrow> getitem imresize ds idx rnd = Inl IndexError) \<and>
   (length (labels ds) = len ds \<and> - int (len ds) \<le> idx \<and> idx < 0
      \<longrightarrow> getitem imresize ds idx rnd = getitem imresize ds (idx + int (len ds)) rnd)"
  using getitem_outside [of ds idx imresize rnd] getitem_wraps [of ds idx imresize rnd]
  by blast

theorem getitem_index_error_witness:
  "len example_dataset = 1 \<and>
   getitem nearest_resize example_dataset 1 (1, 0) = Inl IndexError \<and>
   getitem nearest_resize example_dataset (- 2) (1, 0) = Inl IndexError \<and>
   getitem nearest_resize example_dataset (- 1) (1, 0)
     = getitem nearest_resize example_dataset 0 (1, 0)"
proof -
  from example_dataset_built have n: "len example_dataset = 1"
    and l: "length (labels example_dataset) = 1"
    by blast+
  from getitem_index_error [of example_dataset 1 nearest_resize "(1, 0)"] n
  have a: "getitem nearest_resize example_dataset 1 (1, 0) = Inl IndexError"
    by simp
  from getitem_index_error [of example_dataset "- 2" nearest_resize "(1, 0)"] n
  have b: "getitem nearest_resize example_dataset (- 2) (1, 0) = Inl IndexError"
    by simp
  from getitem_index_error [of example_dataset "- 1" nearest_resize "(1, 0)"] n l
  have c: "getitem nearest_resize example_dataset (- 1) (1, 0)
             = getitem nearest_resize example_dataset 0 (1, 0)"
    by simp
  from n a b c show ?thesis by blast
qed

text \<open>
  The claim C7 as stated fails: on a dataset of one example the index \<open>- 1\<close> lies
  outside \<open>[0, length)\<close>, and get returns the example.
\<close>

theorem getitem_negative_index_counterexample:
  "len example_dataset = 1 \<and>
   \<not> (0 \<le> (- 1 :: int) \<and> (- 1 :: int) < int (len example_dataset)) \<and>
   \<not> isl (getitem nearest_resize example_dataset (- 1) (1, 0)) \<and>
   getitem nearest_resize example_dataset (- 1) (1, 0) \<noteq> Inl IndexError"
proof -
  from example_dataset_built obtain t where t: "colormap2label = Inr t"
    and run: "VOCSegDataset_init exact_float32 (1, 1) [example_feature] [example_label] t
                = Inr example_dataset"
    and n: "len example_dataset = 1"
    and l: "length (labels example_dataset) = 1"
    by blast
  have h: "length [example_feature] = length [example_label]"
    "\<forall>i < length [example_feature].
        shape0 ([example_label] ! i) = shape0 ([example_feature] ! i) \<and>
        shape1 ([example_label] ! i) = shape1 ([example_feature] ! i)"
    "\<forall>f \<in> set [example_feature]. shape2 f = 3"
    "\<forall>l \<in> set [example_label]. shape2 l = 3"
    "0 < (1 :: nat)" "0 < (1 :: nat)" "0 \<le> (0 :: int)"
    by (simp_all add: example_feature_def example_label_def)
  from n have i: "(0 :: int) < int (len example_dataset)" by simp
  from getitem_dataset [OF table_lookup(1) [OF t] run h i, of nearest_resize "(1, 0)"]
  obtain feature indices where
    z: "getitem nearest_resize example_dataset 0 (1, 0) = Inr (feature, indices)"
    by blast
  from getitem_wraps [of example_dataset "- 1" nearest_resize "(1, 0)"] n l
  have "getitem nearest_resize example_dataset (- 1) (1, 0)
          = getitem nearest_resize example_dataset 0 (1, 0)"
    by simp
  with z have "getitem nearest_resize example_dataset (- 1) (1, 0) = Inr (feature, indices)"
    by (simp only:)
  then have "\<not> isl (getitem nearest_resize example_dataset (- 1) (1, 0))"
    and "getitem nearest_resize example_dataset (- 1) (1, 0) \<noteq> Inl IndexError"
    by simp_all
  with n show ?thesis by simp
qed

end
